theory Spec2Isabelle
  imports Complex_Main "HOL-Library.List_Lexorder" "HOL-Library.Char_ord" "HOL-Library.Log_Nat"
begin

section \<open>Data model of \<^verbatim>\<open>bids/modeling/auto_model.py\<close>\<close>

text \<open>
  The module builds nested Python dictionaries. Every dictionary the module creates has a
  fixed set of keys, so each becomes a record with one field per key; a key that is set on
  some paths only (\<^verbatim>\<open>HRF\<close>, \<^verbatim>\<open>Transformations\<close>, \<^verbatim>\<open>Contrasts\<close>) is an
  \<open>option\<close> field, \<open>None\<close> meaning that the key is absent. Field names are the keys,
  prefixed with the record they belong to, since \<^verbatim>\<open>Name\<close>, \<^verbatim>\<open>Model\<close> and
  \<^verbatim>\<open>Input\<close> occur in several dictionaries.

  Strings are \<open>char list\<close>, ordered lexicographically by character code, which is the
  order of Python and numpy strings on code points. A Python float or numpy
  \<^verbatim>\<open>float64\<close> is the rational number it denotes, and every float operation of the
  module rounds its exact result to the nearest \<^verbatim>\<open>binary64\<close> value (\<open>float64\<close> below).
\<close>

datatype error =
    KeyError string
  | IndexError
  | LoadError string

record instruction =
  instr_Name :: string
  instr_Input :: string

record transformations =
  tr_Transformer :: string
  tr_Instructions :: "instruction list"

record hrf_parameters =
  PeakDelay :: int
  PeakDispersion :: int
  UndershootDelay :: int
  UndershootDispersion :: int
  PeakUndershootRatio :: rat

record hrf =
  hrf_Variables :: "string list"
  hrf_Model :: string
  hrf_Parameters :: hrf_parameters

record model =
  model_Type :: string
  model_X :: "string list"
  model_HRF :: "hrf option"

record contrast =
  contrast_Name :: string
  contrast_ConditionList :: "string list"
  contrast_Weights :: "rat list"
  contrast_Test :: string

record node =
  node_Level :: string
  node_Name :: string
  node_GroupBy :: "string list"
  node_Transformations :: "transformations option"
  node_Model :: model
  node_Contrasts :: "contrast list option"

record task_model =
  tm_Name :: string
  tm_Description :: string
  tm_BIDSModelVersion :: string
  tm_Input_task :: "string list"
  tm_Nodes :: "node list"

text \<open>
  The collaborators. A run node of \<^verbatim>\<open>load_variables(...).nodes\<close> carries a dictionary
  \<^verbatim>\<open>variables\<close> from variable names to variables; the module reads only
  \<^verbatim>\<open>n.variables['trial_type'].values.values\<close>, so a variable is the sequence of its
  values. The layout is what the module reads from it: \<^verbatim>\<open>layout._root.name\<close>,
  \<^verbatim>\<open>layout.entities['task'].unique()\<close>, \<^verbatim>\<open>layout.get_sessions()\<close>,
  \<^verbatim>\<open>layout.get_subjects()\<close> and the result of
  \<^verbatim>\<open>load_variables(layout, task=..., levels=['run'], scan_length=...)\<close>, which may
  raise.
\<close>

record run_node =
  variables :: "string \<rightharpoonup> string list"

record layout =
  root_name :: string
  entities_task_unique :: "string list"
  get_sessions :: "string list"
  get_subjects :: "string list"
  load_variables :: "string \<Rightarrow> int option \<Rightarrow> error + run_node list"

section \<open>Python and numpy primitives\<close>

definition bind_err :: "error + 'a \<Rightarrow> ('a \<Rightarrow> error + 'b) \<Rightarrow> error + 'b" where
  "bind_err r f = (case r of Inl e \<Rightarrow> Inl e | Inr v \<Rightarrow> f v)"

text \<open>\<^verbatim>\<open>d[k]\<close> on a dictionary raises \<^verbatim>\<open>KeyError\<close> when the key is missing.\<close>

definition getitem :: "(string \<rightharpoonup> 'v) \<Rightarrow> string \<Rightarrow> error + 'v" where
  "getitem d k = (case d k of None \<Rightarrow> Inl (KeyError k) | Some v \<Rightarrow> Inr v)"

text \<open>
  Rounding to \<^verbatim>\<open>binary64\<close>: 53 significant bits, to nearest, ties to the even
  significand. \<open>floor_log2 x\<close> is the exponent \<open>e\<close> of a positive \<open>x\<close>, the integer with
  \<open>2 powi e \<le> x < 2 powi (e + 1)\<close>. The exponent range is not bounded: the module only
  divides \<^verbatim>\<open>-1.0\<close> by \<^verbatim>\<open>len(trial_types) - 1\<close>, a positive integer below \<open>2 ^ 63\<close>, and
  reads the literal \<^verbatim>\<open>0.2\<close>, so neither overflow nor subnormal numbers occur.
\<close>

definition floor_log2 :: "rat \<Rightarrow> int" where
  "floor_log2 x =
     (let (p, q) = quotient_of x; d = bitlen p - bitlen q
      in if 2 powi d \<le> x then d else d - 1)"

definition round_half_even :: "rat \<Rightarrow> int" where
  "round_half_even y =
     (let f = \<lfloor>y\<rfloor>; r = y - of_int f
      in if r < 1 / 2 then f
         else if 1 / 2 < r then f + 1
         else if even f then f else f + 1)"

definition float64 :: "rat \<Rightarrow> rat" where
  "float64 x =
     (if x = 0 then 0
      else let q = floor_log2 \<bar>x\<bar> - 52
           in of_int (round_half_even (x / 2 powi q)) * 2 powi q)"

text \<open>
  \<^verbatim>\<open>a / b\<close> for a float \<open>a\<close> and an integer \<open>b\<close>: the integer is converted to a float and
  the quotient is rounded; \<open>None\<close> is \<^verbatim>\<open>ZeroDivisionError\<close>.
\<close>

definition py_truediv :: "rat \<Rightarrow> int \<Rightarrow> rat option" where
  "py_truediv a b = (if b = 0 then None else Some (float64 (a / float64 (of_int b))))"

text \<open>\<^verbatim>\<open>str.lower\<close>, on the ASCII letters.\<close>

definition lower_char :: "char \<Rightarrow> char" where
  "lower_char c =
     (case map_of (zip ''ABCDEFGHIJKLMNOPQRSTUVWXYZ'' ''abcdefghijklmnopqrstuvwxyz'') c of
        None \<Rightarrow> c
      | Some l \<Rightarrow> l)"

definition lower :: "string \<Rightarrow> string" where
  "lower s = map lower_char s"

text \<open>
  \<^verbatim>\<open>np.unique\<close> on a list of strings first builds a fixed-width unicode array, which
  pads every string with NUL characters and cannot tell padding from trailing NULs of the
  string itself: each element comes back without its trailing NULs. The result holds the
  sorted unique elements of that array.
\<close>

definition rstrip_nul :: "string \<Rightarrow> string" where
  "rstrip_nul s = rev (dropWhile (\<lambda>c. c = CHR 0x00) (rev s))"

definition np_unique :: "string list \<Rightarrow> string list" where
  "np_unique evs = sort (remdups (map rstrip_nul evs))"

text \<open>\<^verbatim>\<open>np.ones(n)\<close> and the masked assignment \<^verbatim>\<open>weights[mask] = w\<close>.\<close>

definition np_ones :: "nat \<Rightarrow> rat list" where
  "np_ones n = replicate n 1"

definition masked_assign :: "rat list \<Rightarrow> bool list \<Rightarrow> rat \<Rightarrow> rat list" where
  "masked_assign weights selected w = map (\<lambda>(x, m). if m then w else x) (zip weights selected)"

section \<open>\<^verbatim>\<open>_make_passthrough_contrast\<close>\<close>

definition gb_dict :: "string \<rightharpoonup> string list" where
  "gb_dict = map_of
     [(''Subject'', [''subject'', ''contrast'']),
      (''Session'', [''session'', ''contrast'']),
      (''Dataset'', [''contrast''])]"

definition passthrough_cdict :: "string \<Rightarrow> string \<Rightarrow> string \<Rightarrow> contrast" where
  "passthrough_cdict level test cn =
     \<lparr>contrast_Name = lower level @ ''_'' @ cn,
      contrast_ConditionList = [cn],
      contrast_Weights = [1],
      contrast_Test = test\<rparr>"

definition make_passthrough_contrast ::
  "string \<Rightarrow> string list \<Rightarrow> string \<Rightarrow> string \<Rightarrow> error + node" where
  "make_passthrough_contrast level contrast_names model_type test =
     bind_err (getitem gb_dict level) (\<lambda>gb.
       Inr \<lparr>node_Level = level,
            node_Name = level,
            node_GroupBy = gb,
            node_Transformations = None,
            node_Model = \<lparr>model_Type = model_type, model_X = contrast_names, model_HRF = None\<rparr>,
            node_Contrasts = Some (map (passthrough_cdict level test) contrast_names)\<rparr>)"

text \<open>The defaults \<^verbatim>\<open>model_type='glm'\<close> and \<^verbatim>\<open>test="t"\<close> of the signature.\<close>

definition default_model_type :: string where
  "default_model_type = ''glm''"

definition default_test :: string where
  "default_test = ''t''"

section \<open>\<^verbatim>\<open>auto_model\<close>\<close>

subsection \<open>Trial types of a task (lines 78 to 85)\<close>

fun collect_evs :: "run_node list \<Rightarrow> string list \<Rightarrow> error + string list" where
  "collect_evs [] evs = Inr evs"
| "collect_evs (n # ns) evs =
     bind_err (getitem (variables n) ''trial_type'') (\<lambda>vs. collect_evs ns (evs @ vs))"

definition get_trial_types :: "layout \<Rightarrow> int option \<Rightarrow> string \<Rightarrow> error + string list" where
  "get_trial_types layout scan_length task_name =
     bind_err (load_variables layout task_name scan_length) (\<lambda>run_nodes.
     bind_err (collect_evs run_nodes []) (\<lambda>evs.
       Inr (np_unique evs)))"

definition factors :: "string list \<Rightarrow> string list" where
  "factors trial_types = map (\<lambda>tt. ''trial_type.'' @ tt) trial_types"

subsection \<open>The run level block (lines 63 to 100)\<close>

definition run_transformations :: transformations where
  "run_transformations =
     \<lparr>tr_Transformer = ''pybids-transforms-v1'',
      tr_Instructions = [\<lparr>instr_Name = ''Factor'', instr_Input = ''trial_type''\<rparr>]\<rparr>"

definition run_model :: "string list \<Rightarrow> model" where
  "run_model trial_type_factors =
     \<lparr>model_Type = ''glm'',
      model_X = trial_type_factors,
      model_HRF = Some
        \<lparr>hrf_Variables = trial_type_factors,
         hrf_Model = ''DoubleGamma'',
         hrf_Parameters =
           \<lparr>PeakDelay = 3, PeakDispersion = 6, UndershootDelay = 10,
            UndershootDispersion = 12, PeakUndershootRatio = float64 (2 / 10)\<rparr>\<rparr>\<rparr>"

definition run_block :: "string list \<Rightarrow> node" where
  "run_block trial_type_factors =
     \<lparr>node_Level = ''Run'',
      node_Name = ''Run'',
      node_GroupBy = [''run'', ''subject''],
      node_Transformations = Some run_transformations,
      node_Model = run_model trial_type_factors,
      node_Contrasts = None\<rparr>"

subsection \<open>One-vs-rest contrasts (lines 104 to 124)\<close>

text \<open>
  The right-hand side \<^verbatim>\<open>-1.0 / (len(trial_types) - 1)\<close> is evaluated before the mask,
  and \<^verbatim>\<open>except ZeroDivisionError: pass\<close> leaves \<^verbatim>\<open>weights\<close> as \<^verbatim>\<open>np.ones\<close> made it.
\<close>

definition contrast_weights :: "string list \<Rightarrow> string \<Rightarrow> rat list" where
  "contrast_weights trial_types tt =
     (let weights = np_ones (length trial_types) in
      case py_truediv (- 1) (int (length trial_types) - 1) of
        None \<Rightarrow> weights
      | Some w \<Rightarrow> masked_assign weights (map (\<lambda>t. t \<noteq> tt) trial_types) w)"

definition run_cdict :: "string list \<Rightarrow> string \<Rightarrow> contrast" where
  "run_cdict trial_types tt =
     \<lparr>contrast_Name =
        (if length trial_types > 1 then ''run_'' @ tt @ ''_vs_others'' else ''run_'' @ tt),
      contrast_ConditionList = factors trial_types,
      contrast_Weights = contrast_weights trial_types tt,
      contrast_Test = ''t''\<rparr>"

definition run_contrasts :: "string list \<Rightarrow> contrast list" where
  "run_contrasts trial_types = map (run_cdict trial_types) trial_types"

subsection \<open>Aggregation nodes (lines 127 to 147)\<close>

text \<open>\<^verbatim>\<open>[cc["Name"] for cc in nodes[-1]["Contrasts"]]\<close>\<close>

definition last_contrast_names :: "node list \<Rightarrow> error + string list" where
  "last_contrast_names nodes =
     (if nodes = [] then Inl IndexError
      else case node_Contrasts (last nodes) of
             None \<Rightarrow> Inl (KeyError ''Contrasts'')
           | Some cs \<Rightarrow> Inr (map contrast_Name cs))"

definition append_passthrough :: "node list \<Rightarrow> string \<Rightarrow> string \<Rightarrow> error + node list" where
  "append_passthrough nodes level model_type =
     bind_err (last_contrast_names nodes) (\<lambda>contrast_names.
     bind_err (make_passthrough_contrast level contrast_names model_type default_test) (\<lambda>block.
       Inr (nodes @ [block])))"

definition aggregate :: "layout \<Rightarrow> node list \<Rightarrow> error + node list" where
  "aggregate layout nodes =
     bind_err (if length (get_sessions layout) > 1
               then append_passthrough nodes ''Session'' ''meta''
               else Inr nodes) (\<lambda>nodes.
     bind_err (if length (get_subjects layout) > 1
               then append_passthrough nodes ''Subject'' ''meta''
               else Inr nodes) (\<lambda>nodes.
       append_passthrough nodes ''Dataset'' default_model_type))"

subsection \<open>The loop over the tasks (lines 48 to 152)\<close>

definition build_nodes :: "layout \<Rightarrow> bool \<Rightarrow> string list \<Rightarrow> error + node list" where
  "build_nodes layout one_vs_rest trial_types =
     (let run = run_block (factors trial_types);
          run = (if one_vs_rest
                 then run\<lparr>node_Contrasts := Some (run_contrasts trial_types)\<rparr>
                 else run);
          nodes = [] @ [run]
      in if one_vs_rest then aggregate layout nodes else Inr nodes)"

definition build_model ::
  "layout \<Rightarrow> int option \<Rightarrow> bool \<Rightarrow> string \<Rightarrow> error + task_model" where
  "build_model layout scan_length one_vs_rest task_name =
     (let base_name = root_name layout in
      bind_err (get_trial_types layout scan_length task_name) (\<lambda>trial_types.
      bind_err (build_nodes layout one_vs_rest trial_types) (\<lambda>nodes.
        Inr \<lparr>tm_Name = base_name @ ''_'' @ task_name,
             tm_Description =
               ''Autogenerated model for the '' @ task_name @ '' task from '' @ base_name,
             tm_BIDSModelVersion = ''1.0.0'',
             tm_Input_task = [task_name],
             tm_Nodes = nodes\<rparr>)))"

fun task_loop ::
  "layout \<Rightarrow> int option \<Rightarrow> bool \<Rightarrow> string list \<Rightarrow> task_model list \<Rightarrow> error + task_model list"
where
  "task_loop layout scan_length one_vs_rest [] task_models = Inr task_models"
| "task_loop layout scan_length one_vs_rest (task_name # tasks) task_models =
     bind_err (build_model layout scan_length one_vs_rest task_name) (\<lambda>model.
       task_loop layout scan_length one_vs_rest tasks (task_models @ [model]))"

definition auto_model :: "layout \<Rightarrow> int option \<Rightarrow> bool \<Rightarrow> error + task_model list" where
  "auto_model layout scan_length one_vs_rest =
     task_loop layout scan_length one_vs_rest (entities_task_unique layout) []"

section \<open>Example layouts\<close>

text \<open>
  A dataset with two sessions and two subjects. Task \<^verbatim>\<open>rest\<close> has two runs whose events
  repeat the labels \<^verbatim>\<open>stop\<close> and \<^verbatim>\<open>go\<close>, task \<^verbatim>\<open>nback\<close> has the single label
  \<^verbatim>\<open>2back\<close>, and the one run of task \<^verbatim>\<open>fixation\<close> has a \<^verbatim>\<open>trial_type\<close> column
  with no rows.
\<close>

definition demo_layout :: layout where
  "demo_layout =
     \<lparr>root_name = ''ds'',
      entities_task_unique = [''rest'', ''nback'', ''fixation''],
      get_sessions = [''1'', ''2''],
      get_subjects = [''01'', ''02''],
      load_variables = (\<lambda>task scan_length.
        if task = ''rest''
        then Inr [\<lparr>variables = [''trial_type'' \<mapsto> [''stop'', ''go'']]\<rparr>,
                  \<lparr>variables = [''trial_type'' \<mapsto> [''go'', ''stop'', ''go'']]\<rparr>]
        else if task = ''nback''
        then Inr [\<lparr>variables = [''trial_type'' \<mapsto> [''2back'', ''2back'']]\<rparr>]
        else if task = ''fixation''
        then Inr [\<lparr>variables = [''trial_type'' \<mapsto> []]\<rparr>]
        else Inl (LoadError task))\<rparr>"

definition demo_models :: "bool \<Rightarrow> task_model list" where
  "demo_models one_vs_rest = projr (auto_model demo_layout None one_vs_rest)"

text \<open>The same dataset with one session and one subject.\<close>

definition small_layout :: layout where
  "small_layout = demo_layout\<lparr>get_sessions := [''1''], get_subjects := [''01'']\<rparr>"

definition small_models :: "task_model list" where
  "small_models = projr (auto_model small_layout None True)"

text \<open>
  A dataset whose second run of task \<^verbatim>\<open>rest\<close> has events with a \<^verbatim>\<open>response\<close> column
  and no \<^verbatim>\<open>trial_type\<close> column.
\<close>

definition missing_layout :: layout where
  "missing_layout =
     \<lparr>root_name = ''ds'',
      entities_task_unique = [''rest''],
      get_sessions = [''1''],
      get_subjects = [''01''],
      load_variables = (\<lambda>task scan_length.
        Inr [\<lparr>variables = [''trial_type'' \<mapsto> [''go'', ''stop'']]\<rparr>,
             \<lparr>variables = [''response'' \<mapsto> [''left'', ''right'']]\<rparr>])\<rparr>"

text \<open>A dataset with one task of four trial types.\<close>

definition stroop_layout :: layout where
  "stroop_layout =
     \<lparr>root_name = ''ds'',
      entities_task_unique = [''stroop''],
      get_sessions = [''1''],
      get_subjects = [''01''],
      load_variables = (\<lambda>task scan_length.
        Inr [\<lparr>variables =
               [''trial_type'' \<mapsto> [''neutral'', ''congruent'', ''null'', ''incongruent'']]\<rparr>])\<rparr>"

definition stroop_models :: "task_model list" where
  "stroop_models = projr (auto_model stroop_layout None True)"



section \<open>Rounding to binary64\<close>

lemma bitlen_bounds_rat:
  assumes "0 < p"
  shows "(2::rat) powi (bitlen p - 1) \<le> of_int p" "of_int p < (2::rat) powi (bitlen p)"
proof -
  from bitlen_bounds [OF assms]
  have a: "2 ^ nat (bitlen p - 1) \<le> p" and b: "p < 2 ^ nat (bitlen p)"
    by simp_all
  have pos: "1 \<le> bitlen p"
    using assms bitlen_eq_zero_iff [of p] bitlen_nonneg [of p] by linarith
  from a have "(of_int (2 ^ nat (bitlen p - 1)) :: rat) \<le> of_int p"
    by (simp only: of_int_le_iff)
  then show "(2::rat) powi (bitlen p - 1) \<le> of_int p"
    using pos by (simp add: power_int_def)
  from b have "(of_int p :: rat) < of_int (2 ^ nat (bitlen p))"
    by (simp only: of_int_less_iff)
  then show "of_int p < (2::rat) powi (bitlen p)"
    using pos by (simp add: power_int_def)
qed

lemma floor_log2_bounds:
  assumes "0 < x"
  shows "2 powi (floor_log2 x) \<le> x \<and> x < 2 powi (floor_log2 x + 1)"
proof -
  obtain p q where pq: "quotient_of x = (p, q)" by (cases "quotient_of x")
  then have q: "0 < q" and x: "x = of_int p / of_int q"
    by (simp_all add: quotient_of_denom_pos quotient_of_div)
  from assms x q have p: "0 < p"
    by (simp add: zero_less_divide_iff)
  let ?d = "bitlen p - bitlen q"
  note bp = bitlen_bounds_rat [OF p] and bq = bitlen_bounds_rat [OF q]
  have q': "(0::rat) < of_int q" using q by simp
  have low: "(2::rat) powi (?d - 1) \<le> x"
  proof -
    have "(2::rat) powi (?d - 1) * of_int q \<le> 2 powi (?d - 1) * 2 powi (bitlen q)"
      using bq(2) by (intro mult_left_mono) simp_all
    also have "\<dots> = 2 powi (bitlen p - 1)"
      by (simp add: power_int_add [symmetric])
    also have "\<dots> \<le> of_int p" by (rule bp(1))
    finally show ?thesis
      using q' by (simp add: x pos_le_divide_eq)
  qed
  have high: "x < (2::rat) powi (?d + 1)"
  proof -
    have "of_int p < (2::rat) powi (bitlen p)" by (rule bp(2))
    also have "\<dots> = 2 powi (?d + 1) * 2 powi (bitlen q - 1)"
      by (simp add: power_int_add [symmetric])
    also have "\<dots> \<le> 2 powi (?d + 1) * of_int q"
      using bq(1) by (intro mult_left_mono) simp_all
    finally show ?thesis
      using q' by (simp add: x pos_divide_less_eq)
  qed
  show ?thesis
  proof (cases "2 powi ?d \<le> x")
    case True
    then have "floor_log2 x = ?d" by (simp add: floor_log2_def pq)
    with True high show ?thesis by simp
  next
    case False
    then have "floor_log2 x = ?d - 1" by (simp add: floor_log2_def pq)
    with False low show ?thesis by simp
  qed
qed

lemma round_half_even_error: "\<bar>of_int (round_half_even y) - y\<bar> \<le> 1 / 2"
proof -
  define r where "r = y - of_int \<lfloor>y\<rfloor>"
  have r: "0 \<le> r" "r < 1"
    unfolding r_def by linarith+
  have "of_int (round_half_even y) - y =
      (if r < 1 / 2 then - r else if 1 / 2 < r then 1 - r
       else if even \<lfloor>y\<rfloor> then - r else 1 - r)"
    by (simp add: round_half_even_def Let_def r_def)
  with r show ?thesis
    by (auto simp: abs_if split: if_splits)
qed

text \<open>The relative error of rounding is at most half a unit in the last place.\<close>

lemma float64_error: "\<bar>float64 x - x\<bar> \<le> \<bar>x\<bar> / 2 ^ 53"
proof (cases "x = 0")
  case True
  then show ?thesis by (simp add: float64_def)
next
  case False
  let ?e = "floor_log2 \<bar>x\<bar>"
  let ?s = "(2::rat) powi (?e - 52)"
  have s: "0 < ?s" by simp
  from False have "0 < \<bar>x\<bar>" by simp
  from floor_log2_bounds [OF this] have e: "2 powi ?e \<le> \<bar>x\<bar>" by simp
  have "float64 x - x = (of_int (round_half_even (x / ?s)) - x / ?s) * ?s"
    using False s by (simp add: float64_def Let_def algebra_simps)
  then have "\<bar>float64 x - x\<bar> = \<bar>of_int (round_half_even (x / ?s)) - x / ?s\<bar> * ?s"
    using s by (simp add: abs_mult)
  also have "\<dots> \<le> 1 / 2 * ?s"
    using s round_half_even_error [of "x / ?s"] by (intro mult_right_mono) simp_all
  also have "\<dots> = 2 powi ?e / 2 ^ 53"
    by (simp add: power_int_diff)
  also have "\<dots> \<le> \<bar>x\<bar> / 2 ^ 53"
    using e by (simp add: divide_right_mono)
  finally show ?thesis .
qed

lemma one_vs_rest_sum_bound:
  assumes "1 \<le> n"
  shows "\<bar>1 + of_int n * float64 (- 1 / float64 (of_int n))\<bar> \<le> 1 / 2 ^ 51"
proof -
  define N :: rat where "N = of_int n"
  define a where "a = float64 N"
  define w where "w = float64 (- 1 / a)"
  define u :: rat where "u = 1 / 2 ^ 53"
  have N: "1 \<le> N" using assms by (simp add: N_def)
  have ea: "\<bar>a - N\<bar> \<le> u * N"
    using float64_error [of N] N by (simp add: a_def u_def)
  have "u * N \<le> N / 2"
    using N by (simp add: u_def)
  with ea have half: "N / 2 \<le> a" by linarith
  with N have a: "0 < a" by linarith
  have ew: "\<bar>w + 1 / a\<bar> \<le> u / a"
    using float64_error [of "- 1 / a"] a by (simp add: w_def u_def)
  have ratio: "N / a \<le> 2"
    using half a by (simp add: pos_divide_le_eq)
  have "1 + N * w = (a - N) / a + N * (w + 1 / a)"
    using a by (simp add: field_simps)
  then have "\<bar>1 + N * w\<bar> \<le> \<bar>(a - N) / a\<bar> + \<bar>N * (w + 1 / a)\<bar>"
    by (simp only: abs_triangle_ineq)
  also have "\<bar>(a - N) / a\<bar> = \<bar>a - N\<bar> / a"
    using a by (simp add: abs_divide)
  also have "\<bar>N * (w + 1 / a)\<bar> = N * \<bar>w + 1 / a\<bar>"
    using N by (simp add: abs_mult)
  also have "\<bar>a - N\<bar> / a + N * \<bar>w + 1 / a\<bar> \<le> u * N / a + N * (u / a)"
    using ea ew a N by (intro add_mono divide_right_mono mult_left_mono) simp_all
  also have "\<dots> = 2 * u * (N / a)"
    by simp
  also have "\<dots> \<le> 2 * u * 2"
    using ratio by (intro mult_left_mono) (simp_all add: u_def)
  also have "\<dots> = 1 / 2 ^ 51"
    by (simp add: u_def)
  finally show ?thesis
    by (simp add: N_def a_def w_def)
qed

lemma float64_third: "float64 (- 1 / float64 3) = - 6004799503160661 / 18014398509481984"
  by code_simp

section \<open>Error propagation and the task loop\<close>

lemma bind_err_Inr_iff:
  "bind_err r f = Inr y \<longleftrightarrow> (\<exists>v. r = Inr v \<and> f v = Inr y)"
  by (cases r) (simp_all add: bind_err_def)

lemma bind_err_Inr [simp]: "bind_err (Inr v) f = f v"
  by (simp add: bind_err_def)

lemma bind_err_Inl [simp]: "bind_err (Inl e) f = Inl e"
  by (simp add: bind_err_def)

lemma task_loop_Inr:
  "task_loop L sl ovr ts acc = Inr tms \<Longrightarrow>
     \<exists>ms. tms = acc @ ms \<and> list_all2 (\<lambda>t m. build_model L sl ovr t = Inr m) ts ms"
proof (induction ts arbitrary: acc)
  case Nil
  then show ?case by simp
next
  case (Cons t ts)
  from Cons.prems obtain m where m: "build_model L sl ovr t = Inr m"
    and rest: "task_loop L sl ovr ts (acc @ [m]) = Inr tms"
    by (auto simp: bind_err_Inr_iff)
  from Cons.IH [OF rest] obtain ms where "tms = (acc @ [m]) @ ms"
    and "list_all2 (\<lambda>t m. build_model L sl ovr t = Inr m) ts ms"
    by blast
  with m have "tms = acc @ (m # ms) \<and>
      list_all2 (\<lambda>t m. build_model L sl ovr t = Inr m) (t # ts) (m # ms)"
    by simp
  then show ?case by blast
qed

lemma task_loop_total:
  "list_all2 (\<lambda>t m. build_model L sl ovr t = Inr m) ts ms \<Longrightarrow>
     task_loop L sl ovr ts acc = Inr (acc @ ms)"
  by (induction ts ms arbitrary: acc rule: list_all2_induct) simp_all

lemma auto_model_Inr:
  assumes "auto_model L sl ovr = Inr tms"
  shows "list_all2 (\<lambda>t m. build_model L sl ovr t = Inr m) (entities_task_unique L) tms"
  using task_loop_Inr [of L sl ovr "entities_task_unique L" "[]" tms] assms
  by (simp add: auto_model_def)

lemma auto_model_nth:
  assumes "auto_model L sl ovr = Inr tms" and "i < length tms"
  shows "build_model L sl ovr (entities_task_unique L ! i) = Inr (tms ! i)"
  using auto_model_Inr [OF assms(1)] assms(2)
  by (simp add: list_all2_conv_all_nth)

lemma auto_model_length:
  assumes "auto_model L sl ovr = Inr tms"
  shows "length tms = length (entities_task_unique L)"
  using auto_model_Inr [OF assms] by (simp add: list_all2_lengthD)

lemma build_model_nodes:
  assumes "build_model L sl ovr t = Inr m"
  shows "\<exists>tts. get_trial_types L sl t = Inr tts \<and> build_nodes L ovr tts = Inr (tm_Nodes m)"
  using assms by (auto simp: build_model_def Let_def bind_err_Inr_iff)

lemma auto_model_nodes:
  assumes "auto_model L sl ovr = Inr tms" and "i < length tms"
  shows "\<exists>tts. get_trial_types L sl (entities_task_unique L ! i) = Inr tts \<and>
           build_nodes L ovr tts = Inr (tm_Nodes (tms ! i))"
  using build_model_nodes [OF auto_model_nth [OF assms]] .

section \<open>Trial-type discovery\<close>


lemma collect_evs_Inl:
  "\<exists>n\<in>set ns. variables n ''trial_type'' = None \<Longrightarrow>
     collect_evs ns evs = Inl (KeyError ''trial_type'')"
  by (induction ns arbitrary: evs) (auto simp: getitem_def bind_err_def split: option.splits)

lemma np_unique_props:
  "sorted (np_unique evs) \<and> distinct (np_unique evs) \<and>
   set (np_unique evs) = rstrip_nul ` set evs"
  by (simp add: np_unique_def)


lemma get_trial_types_unique:
  assumes "get_trial_types L sl t = Inr tts"
  shows "sorted tts \<and> distinct tts"
  using assms by (auto simp: get_trial_types_def bind_err_Inr_iff np_unique_props)


lemma collect_evs_append:
  "collect_evs (xs @ ys) evs = bind_err (collect_evs xs evs) (\<lambda>evs'. collect_evs ys evs')"
proof (induction xs arbitrary: evs)
  case Nil
  then show ?case by simp
next
  case (Cons n xs)
  show ?case
    by (cases "getitem (variables n) ''trial_type''") (simp_all add: Cons.IH)
qed

lemma collect_evs_skip_empty:
  assumes "variables n ''trial_type'' = Some []"
  shows "collect_evs (xs @ n # ys) evs = collect_evs (xs @ ys) evs"
  using assms by (simp add: collect_evs_append getitem_def)

lemma auto_model_task_error:
  assumes "get_trial_types L sl t = Inl e" and "t \<in> set (entities_task_unique L)"
  shows "isl (auto_model L sl ovr)"
proof (rule ccontr)
  assume "\<not> isl (auto_model L sl ovr)"
  then obtain tms where tms: "auto_model L sl ovr = Inr tms"
    by (cases "auto_model L sl ovr") simp_all
  from assms(2) obtain i where i: "i < length (entities_task_unique L)"
    and t: "entities_task_unique L ! i = t"
    by (auto simp: in_set_conv_nth)
  from i have "i < length tms"
    by (simp add: auto_model_length [OF tms])
  from auto_model_nodes [OF tms this] t assms(1) show False
    by simp
qed

section \<open>Evaluation of the example layouts\<close>

lemma demo_auto_model: "auto_model demo_layout None ovr = Inr (demo_models ovr)"
proof -
  have "\<not> isl (auto_model demo_layout None True)" "\<not> isl (auto_model demo_layout None False)"
    by code_simp+
  then have "\<not> isl (auto_model demo_layout None ovr)"
    by (cases ovr) simp_all
  then show ?thesis
    by (simp add: demo_models_def)
qed

lemma demo_models_length: "length (demo_models ovr) = 3"
  using auto_model_length [OF demo_auto_model, of ovr] by (simp add: demo_layout_def)

lemma demo_trial_types:
  "get_trial_types demo_layout None ''rest'' = Inr [''go'', ''stop'']"
  "get_trial_types demo_layout None ''nback'' = Inr [''2back'']"
  "get_trial_types demo_layout None ''fixation'' = Inr []"
  by code_simp+

lemma demo_tasks: "entities_task_unique demo_layout = [''rest'', ''nback'', ''fixation'']"
  by (simp add: demo_layout_def)

lemma stroop_auto_model: "auto_model stroop_layout None True = Inr stroop_models"
proof -
  have "\<not> isl (auto_model stroop_layout None True)"
    by code_simp
  then show ?thesis
    by (simp add: stroop_models_def)
qed


lemma small_auto_model: "auto_model small_layout None True = Inr small_models"
proof -
  have "\<not> isl (auto_model small_layout None True)"
    by code_simp
  then show ?thesis
    by (simp add: small_models_def)
qed

lemma small_models_length: "length small_models = 3"
  using auto_model_length [OF small_auto_model] by (simp add: small_layout_def demo_layout_def)

lemma demo_rest_contrasts:
  "map node_Contrasts (tm_Nodes (demo_models True ! 0)) =
   [Some [\<lparr>contrast_Name = ''run_go_vs_others'',
           contrast_ConditionList = [''trial_type.go'', ''trial_type.stop''],
           contrast_Weights = [1, - 1], contrast_Test = ''t''\<rparr>,
          \<lparr>contrast_Name = ''run_stop_vs_others'',
           contrast_ConditionList = [''trial_type.go'', ''trial_type.stop''],
           contrast_Weights = [- 1, 1], contrast_Test = ''t''\<rparr>],
    Some [\<lparr>contrast_Name = ''session_run_go_vs_others'',
           contrast_ConditionList = [''run_go_vs_others''],
           contrast_Weights = [1], contrast_Test = ''t''\<rparr>,
          \<lparr>contrast_Name = ''session_run_stop_vs_others'',
           contrast_ConditionList = [''run_stop_vs_others''],
           contrast_Weights = [1], contrast_Test = ''t''\<rparr>],
    Some [\<lparr>contrast_Name = ''subject_session_run_go_vs_others'',
           contrast_ConditionList = [''session_run_go_vs_others''],
           contrast_Weights = [1], contrast_Test = ''t''\<rparr>,
          \<lparr>contrast_Name = ''subject_session_run_stop_vs_others'',
           contrast_ConditionList = [''session_run_stop_vs_others''],
           contrast_Weights = [1], contrast_Test = ''t''\<rparr>],
    Some [\<lparr>contrast_Name = ''dataset_subject_session_run_go_vs_others'',
           contrast_ConditionList = [''subject_session_run_go_vs_others''],
           contrast_Weights = [1], contrast_Test = ''t''\<rparr>,
          \<lparr>contrast_Name = ''dataset_subject_session_run_stop_vs_others'',
           contrast_ConditionList = [''subject_session_run_stop_vs_others''],
           contrast_Weights = [1], contrast_Test = ''t''\<rparr>]]"
  unfolding demo_models_def by code_simp

lemma demo_rest_levels:
  "map (\<lambda>n. (node_Level n, node_GroupBy n, model_Type (node_Model n), model_X (node_Model n)))
     (tm_Nodes (demo_models True ! 0)) =
   [(''Run'', [''run'', ''subject''], ''glm'', [''trial_type.go'', ''trial_type.stop'']),
    (''Session'', [''session'', ''contrast''], ''meta'',
     [''run_go_vs_others'', ''run_stop_vs_others'']),
    (''Subject'', [''subject'', ''contrast''], ''meta'',
     [''session_run_go_vs_others'', ''session_run_stop_vs_others'']),
    (''Dataset'', [''contrast''], ''glm'',
     [''subject_session_run_go_vs_others'', ''subject_session_run_stop_vs_others''])]"
  unfolding demo_models_def by code_simp

lemma demo_rest_length: "length (tm_Nodes (demo_models True ! 0)) = 4"
  using arg_cong [OF demo_rest_levels, of length] by simp

text \<open>The scenario of the specification: one session, one subject, labels \<^verbatim>\<open>go\<close> and \<^verbatim>\<open>stop\<close>.\<close>

lemma small_rest_nodes:
  "map (\<lambda>n. (node_Level n, model_X (node_Model n), 
       map_option (map (\<lambda>c. (contrast_Name c, contrast_ConditionList c, contrast_Weights c))) (node_Contrasts n)))
     (tm_Nodes (small_models ! 0)) =
   [(''Run'', [''trial_type.go'', ''trial_type.stop''],
      Some [(''run_go_vs_others'', [''trial_type.go'', ''trial_type.stop''], [1, - 1]),
            (''run_stop_vs_others'', [''trial_type.go'', ''trial_type.stop''], [- 1, 1])]),
    (''Dataset'', [''run_go_vs_others'', ''run_stop_vs_others''],
      Some [(''dataset_run_go_vs_others'', [''run_go_vs_others''], [1]),
            (''dataset_run_stop_vs_others'', [''run_stop_vs_others''], [1])])]"
  unfolding small_models_def by code_simp

section \<open>One-vs-rest weights\<close>

lemma masked_assign_ones:
  "masked_assign (np_ones (length tts)) (map (\<lambda>t. t \<noteq> tt) tts) w =
     map (\<lambda>t. if t \<noteq> tt then w else 1) tts"
  by (rule nth_equalityI) (simp_all add: masked_assign_def np_ones_def)

lemma contrast_weights_many:
  assumes "1 < length tts"
  shows "contrast_weights tts tt =
           map (\<lambda>t. if t \<noteq> tt then float64 (- 1 / float64 (of_nat (length tts) - 1)) else 1) tts"
proof -
  have "(of_int (int (length tts) - 1) :: rat) = of_nat (length tts) - 1"
    by simp
  moreover have "int (length tts) - 1 \<noteq> 0"
    using assms by simp
  ultimately show ?thesis
    by (simp add: contrast_weights_def py_truediv_def masked_assign_ones)
qed

lemma contrast_weights_single: "contrast_weights [t] tt = [1]"
  by (simp add: contrast_weights_def py_truediv_def np_ones_def)

lemma sum_list_rest:
  "tt \<notin> set xs \<Longrightarrow>
     sum_list (map (\<lambda>t. if t \<noteq> tt then w else 1) xs) = of_nat (length xs) * (w::rat)"
  by (induction xs) (auto simp: algebra_simps)

lemma sum_list_one_vs_rest:
  "distinct xs \<Longrightarrow> tt \<in> set xs \<Longrightarrow>
     sum_list (map (\<lambda>t. if t \<noteq> tt then w else 1) xs) =
       1 + (of_nat (length xs) - 1) * (w::rat)"
proof (induction xs)
  case Nil
  then show ?case by simp
next
  case (Cons x xs)
  show ?case
  proof (cases "x = tt")
    case True
    with Cons.prems have "tt \<notin> set xs" by simp
    with True show ?thesis by (simp add: sum_list_rest)
  next
    case False
    with Cons show ?thesis by (simp add: algebra_simps)
  qed
qed

lemma sum_contrast_weights:
  assumes "1 < length tts" and "distinct tts" and "tt \<in> set tts"
  shows "\<bar>sum_list (contrast_weights tts tt)\<bar> \<le> 1 / 2 ^ 51"
proof -
  have n: "(of_int (int (length tts) - 1) :: rat) = of_nat (length tts) - 1"
    by simp
  have "1 \<le> int (length tts) - 1"
    using assms(1) by simp
  from one_vs_rest_sum_bound [OF this] show ?thesis
    using assms by (simp add: contrast_weights_many sum_list_one_vs_rest n)
qed

lemma weight_near_quotient:
  assumes "1 < k"
  shows "\<bar>float64 (- 1 / float64 (of_nat k - 1)) - (- 1 / (of_nat k - 1))\<bar> \<le>
           1 / 2 ^ 51 / (of_nat k - 1)"
proof -
  define N :: rat where "N = of_nat k - 1"
  define w where "w = float64 (- 1 / float64 N)"
  have N: "0 < N" using assms by (simp add: N_def)
  have "N = of_int (int k - 1)" by (simp add: N_def)
  moreover have "1 \<le> int k - 1" using assms by simp
  ultimately have "\<bar>1 + N * w\<bar> \<le> 1 / 2 ^ 51"
    using one_vs_rest_sum_bound [of "int k - 1"] by (simp add: w_def)
  moreover have "1 + N * w = N * (w - (- 1 / N))"
    using N by (simp add: field_simps)
  ultimately have "\<bar>N * (w - (- 1 / N))\<bar> \<le> 1 / 2 ^ 51"
    by simp
  moreover have "\<bar>N * (w - (- 1 / N))\<bar> = \<bar>w - (- 1 / N)\<bar> * N"
    using N by (simp add: abs_mult)
  ultimately have "\<bar>w - (- 1 / N)\<bar> * N \<le> 1 / 2 ^ 51"
    by simp
  then have "\<bar>w - (- 1 / N)\<bar> \<le> 1 / 2 ^ 51 / N"
    by (simp only: pos_le_divide_eq [OF N])
  then show ?thesis by (simp only: w_def N_def)
qed

lemma build_nodes_True_run:
  assumes "build_nodes L True tts = Inr nodes"
  shows "\<exists>rest. nodes =
           (run_block (factors tts))\<lparr>node_Contrasts := Some (run_contrasts tts)\<rparr> # rest"
  using assms
  by (auto simp: build_nodes_def aggregate_def append_passthrough_def Let_def
        bind_err_Inr_iff split: if_splits)

lemma length_contrast_weights [simp]: "length (contrast_weights tts tt) = length tts"
  by (simp add: contrast_weights_def py_truediv_def np_ones_def masked_assign_def
      split: option.splits)

lemma run_contrasts_lengths:
  "c \<in> set (run_contrasts tts) \<Longrightarrow>
     length (contrast_Weights c) = length (contrast_ConditionList c)"
  by (auto simp: run_contrasts_def run_cdict_def factors_def)

section \<open>The node list of a task\<close>

lemmas build_nodes_defs =
  build_nodes_def aggregate_def append_passthrough_def last_contrast_names_def
  make_passthrough_contrast_def getitem_def gb_dict_def run_block_def Let_def
  default_test_def default_model_type_def

lemma build_nodes_True_levels:
  assumes "build_nodes L True tts = Inr nodes"
  shows "map node_Level nodes =
           [''Run''] @ (if 1 < length (get_sessions L) then [''Session''] else []) @
           (if 1 < length (get_subjects L) then [''Subject''] else []) @ [''Dataset'']"
  using assms by (auto simp: build_nodes_defs split: if_splits)

lemma build_nodes_True_inherit:
  assumes "build_nodes L True tts = Inr nodes" and "0 < j" and "j < length nodes"
  shows "\<exists>cs. node_Contrasts (nodes ! (j - 1)) = Some cs \<and>
              model_X (node_Model (nodes ! j)) = map contrast_Name cs"
  using assms by (auto simp: build_nodes_defs nth_Cons' split: if_splits)

lemma build_nodes_True_length:
  assumes "build_nodes L True tts = Inr nodes"
  shows "2 \<le> length nodes"
  using assms by (auto simp: build_nodes_defs split: if_splits)

lemma build_nodes_total: "\<exists>nodes. build_nodes L ovr tts = Inr nodes"
  by (auto simp: build_nodes_defs split: if_splits)

lemma build_model_total:
  assumes "get_trial_types L sl t = Inr tts"
  shows "\<exists>m. build_model L sl ovr t = Inr m"
  using assms build_nodes_total [of L ovr tts]
  by (auto simp: build_model_def Let_def)

lemma list_all2_exists:
  "(\<forall>t\<in>set ts. \<exists>m. P t m) \<Longrightarrow> \<exists>ms. list_all2 P ts ms"
proof (induction ts)
  case Nil
  then show ?case by simp
next
  case (Cons t ts)
  then obtain m ms where "P t m" "list_all2 P ts ms" by auto
  then have "list_all2 P (t # ts) (m # ms)" by simp
  then show ?case by blast
qed

lemma auto_model_total:
  assumes "\<forall>t\<in>set (entities_task_unique L). \<exists>tts. get_trial_types L sl t = Inr tts"
  shows "\<exists>tms. auto_model L sl ovr = Inr tms"
proof -
  from assms have "\<forall>t\<in>set (entities_task_unique L). \<exists>m. build_model L sl ovr t = Inr m"
    using build_model_total by blast
  from list_all2_exists [OF this] obtain ms
    where "list_all2 (\<lambda>t m. build_model L sl ovr t = Inr m) (entities_task_unique L) ms"
    by blast
  from task_loop_total [OF this, of "[]"] show ?thesis
    by (simp add: auto_model_def)
qed

lemma run_contrasts_single:
  "run_contrasts [tt] =
     [\<lparr>contrast_Name = ''run_'' @ tt,
       contrast_ConditionList = [''trial_type.'' @ tt],
       contrast_Weights = [1],
       contrast_Test = ''t''\<rparr>]"
  by (simp add: run_contrasts_def run_cdict_def contrast_weights_single factors_def)


lemma build_nodes_lengths:
  assumes "build_nodes L ovr tts = Inr nodes" and "n \<in> set nodes"
    and "node_Contrasts n = Some cs" and "c \<in> set cs"
  shows "length (contrast_Weights c) = length (contrast_ConditionList c)"
  using assms
  by (cases ovr)
    (auto simp: build_nodes_defs passthrough_cdict_def run_contrasts_lengths split: if_splits)

lemma lower_levels:
  "lower ''Session'' = ''session''" "lower ''Subject'' = ''subject''"
  "lower ''Dataset'' = ''dataset''"
  by (simp_all add: lower_def lower_char_def)

lemma build_nodes_passthrough:
  assumes "build_nodes L ovr tts = Inr nodes" and "0 < j" and "j < length nodes"
  shows "(node_Level (nodes ! j), node_GroupBy (nodes ! j)) \<in>
           {(''Session'', [''session'', ''contrast'']),
            (''Subject'', [''subject'', ''contrast'']),
            (''Dataset'', [''contrast''])} \<and>
         node_Contrasts (nodes ! j) =
           Some (map (\<lambda>cn. \<lparr>contrast_Name = lower (node_Level (nodes ! j)) @ ''_'' @ cn,
                             contrast_ConditionList = [cn],
                             contrast_Weights = [1],
                             contrast_Test = ''t''\<rparr>)
                   (model_X (node_Model (nodes ! j))))"
  using assms
  by (cases ovr)
    (auto simp: build_nodes_defs passthrough_cdict_def nth_Cons' split: if_splits)

lemma build_nodes_inherit:
  assumes "build_nodes L ovr tts = Inr nodes" and "0 < j" and "j < length nodes"
  shows "\<exists>cs. node_Contrasts (nodes ! (j - 1)) = Some cs \<and>
              model_X (node_Model (nodes ! j)) = map contrast_Name cs"
  using assms build_nodes_True_inherit [of L tts nodes j]
  by (cases ovr) (auto simp: build_nodes_def Let_def)

lemma build_nodes_model_types:
  assumes "build_nodes L ovr tts = Inr nodes" and "n \<in> set nodes"
  shows "(node_Level n = ''Session'' \<longrightarrow> model_Type (node_Model n) = ''meta'') \<and>
         (node_Level n = ''Subject'' \<longrightarrow> model_Type (node_Model n) = ''meta'') \<and>
         (node_Level n = ''Dataset'' \<longrightarrow> model_Type (node_Model n) = ''glm'')"
  using assms
  by (cases ovr) (auto simp: build_nodes_defs split: if_splits)

lemma build_nodes_empty:
  assumes "build_nodes L True [] = Inr nodes"
  shows "\<exists>run middle dataset.
           nodes = run # middle @ [dataset] \<and>
           node_Level run = ''Run'' \<and>
           model_X (node_Model run) = [] \<and>
           node_Contrasts run = Some [] \<and>
           node_Level dataset = ''Dataset'' \<and>
           model_X (node_Model dataset) = [] \<and>
           node_Contrasts dataset = Some []"
  using assms
  by (auto simp: build_nodes_defs run_contrasts_def run_model_def factors_def split: if_splits)

section \<open>The claims\<close>

text \<open>
  C1. With \<^verbatim>\<open>one_vs_rest=True\<close>, a task with \<open>k > 1\<close> discovered trial types gets a run
  node with one contrast per trial type, in the order of the trial types. The contrast of
  trial type \<open>tt\<close> is named \<^verbatim>\<open>run_<tt>_vs_others\<close>, its \<^verbatim>\<open>ConditionList\<close> is the full
  ordered list of factors, and its \<^verbatim>\<open>Weights\<close> hold \<open>1.0\<close> at the position of \<open>tt\<close> and
  the float \<^verbatim>\<open>-1.0 / (k - 1)\<close> at every other position. That float is the quotient
  \<open>-1/(k-1)\<close> up to rounding, within \<open>2 ^ -51 / (k - 1)\<close> of it, and the weights sum to
  approximately zero: their exact sum is at most \<open>2 ^ -51\<close> in absolute value.
\<close>

theorem one_vs_rest_contrasts:
  assumes "auto_model layout scan_length True = Inr task_models"
    and "i < length task_models"
    and "get_trial_types layout scan_length (entities_task_unique layout ! i) = Inr trial_types"
    and "1 < length trial_types"
  shows "\<exists>run rest cs.
           tm_Nodes (task_models ! i) = run # rest \<and>
           node_Level run = ''Run'' \<and>
           node_Contrasts run = Some cs \<and>
           length cs = length trial_types \<and>
           (\<forall>j<length trial_types.
              contrast_Name (cs ! j) = ''run_'' @ trial_types ! j @ ''_vs_others'' \<and>
              contrast_ConditionList (cs ! j) = map (\<lambda>tt. ''trial_type.'' @ tt) trial_types \<and>
              length (contrast_Weights (cs ! j)) = length trial_types \<and>
              (\<forall>p<length trial_types.
                 contrast_Weights (cs ! j) ! p =
                   (if p = j then 1
                    else float64 (- 1 / float64 (of_nat (length trial_types) - 1)))) \<and>
              \<bar>sum_list (contrast_Weights (cs ! j))\<bar> \<le> 1 / 2 ^ 51) \<and>
           \<bar>float64 (- 1 / float64 (of_nat (length trial_types) - 1)) -
              (- 1 / (of_nat (length trial_types) - 1))\<bar> \<le>
             1 / 2 ^ 51 / (of_nat (length trial_types) - 1)"
proof -
  let ?run = "(run_block (factors trial_types))
                \<lparr>node_Contrasts := Some (run_contrasts trial_types)\<rparr>"
  let ?w = "float64 (- 1 / float64 (of_nat (length trial_types) - 1))"
  from auto_model_nodes [OF assms(1,2)] assms(3)
  have "build_nodes layout True trial_types = Inr (tm_Nodes (task_models ! i))"
    by auto
  from build_nodes_True_run [OF this] obtain rest
    where nodes: "tm_Nodes (task_models ! i) = ?run # rest" by blast
  have dist: "distinct trial_types"
    using get_trial_types_unique [OF assms(3)] by simp
  have each:
    "contrast_Name (run_contrasts trial_types ! j) = ''run_'' @ trial_types ! j @ ''_vs_others'' \<and>
     contrast_ConditionList (run_contrasts trial_types ! j) =
       map (\<lambda>tt. ''trial_type.'' @ tt) trial_types \<and>
     length (contrast_Weights (run_contrasts trial_types ! j)) = length trial_types \<and>
     (\<forall>p<length trial_types.
        contrast_Weights (run_contrasts trial_types ! j) ! p = (if p = j then 1 else ?w)) \<and>
     \<bar>sum_list (contrast_Weights (run_contrasts trial_types ! j))\<bar> \<le> 1 / 2 ^ 51"
    if j: "j < length trial_types" for j
  proof -
    have w: "contrast_Weights (run_contrasts trial_types ! j) =
               contrast_weights trial_types (trial_types ! j)"
      using j by (simp add: run_contrasts_def run_cdict_def)
    have pos: "contrast_weights trial_types (trial_types ! j) ! p = (if p = j then 1 else ?w)"
      if "p < length trial_types" for p
      using that j dist assms(4) by (simp add: contrast_weights_many nth_eq_iff_index_eq)
    have "\<bar>sum_list (contrast_weights trial_types (trial_types ! j))\<bar> \<le> 1 / 2 ^ 51"
      using sum_contrast_weights [OF assms(4) dist] j by simp
    moreover have "length (contrast_weights trial_types (trial_types ! j)) = length trial_types"
      by simp
    ultimately show ?thesis
      using j assms(4) w pos by (simp add: run_contrasts_def run_cdict_def factors_def)
  qed
  have "node_Level ?run = ''Run''" "node_Contrasts ?run = Some (run_contrasts trial_types)"
    "length (run_contrasts trial_types) = length trial_types"
    by (simp_all add: run_block_def run_contrasts_def)
  with nodes each weight_near_quotient [OF assms(4)] show ?thesis by blast
qed

theorem one_vs_rest_contrasts_witness:
  "auto_model stroop_layout None True = Inr stroop_models \<and>
   0 < length stroop_models \<and>
   get_trial_types stroop_layout None (entities_task_unique stroop_layout ! 0) =
     Inr [''congruent'', ''incongruent'', ''neutral'', ''null''] \<and>
   1 < length [''congruent'', ''incongruent'', ''neutral'', ''null''] \<and>
   (\<exists>run rest cs.
      tm_Nodes (stroop_models ! 0) = run # rest \<and>
      node_Level run = ''Run'' \<and>
      node_Contrasts run = Some cs \<and>
      length cs = 4 \<and>
      contrast_Name (cs ! 1) = ''run_incongruent_vs_others'' \<and>
      contrast_ConditionList (cs ! 1) =
        [''trial_type.congruent'', ''trial_type.incongruent'', ''trial_type.neutral'',
         ''trial_type.null''] \<and>
      contrast_Weights (cs ! 1) =
        [- 6004799503160661 / 18014398509481984, 1,
         - 6004799503160661 / 18014398509481984, - 6004799503160661 / 18014398509481984] \<and>
      sum_list (contrast_Weights (cs ! 1)) = 1 / 2 ^ 54 \<and>
      \<bar>sum_list (contrast_Weights (cs ! 1))\<bar> \<le> 1 / 2 ^ 51)"
proof -
  let ?tts = "[''congruent'', ''incongruent'', ''neutral'', ''null'']"
  let ?w = "- 6004799503160661 / 18014398509481984 :: rat"
  have h1: "auto_model stroop_layout None True = Inr stroop_models"
    by (rule stroop_auto_model)
  have h2: "0 < length stroop_models"
    using auto_model_length [OF h1] by (simp add: stroop_layout_def)
  have h3: "get_trial_types stroop_layout None (entities_task_unique stroop_layout ! 0) =
              Inr ?tts"
    by code_simp
  have h4: "1 < length ?tts"
    by simp
  from one_vs_rest_contrasts [OF h1 h2 h3 h4] obtain run rest cs where
    run: "tm_Nodes (stroop_models ! 0) = run # rest" "node_Level run = ''Run''"
      "node_Contrasts run = Some cs" "length cs = length ?tts"
    and each: "\<forall>j<length ?tts.
       contrast_Name (cs ! j) = ''run_'' @ ?tts ! j @ ''_vs_others'' \<and>
       contrast_ConditionList (cs ! j) = map (\<lambda>tt. ''trial_type.'' @ tt) ?tts \<and>
       length (contrast_Weights (cs ! j)) = length ?tts \<and>
       (\<forall>p<length ?tts.
          contrast_Weights (cs ! j) ! p =
            (if p = j then 1 else float64 (- 1 / float64 (of_nat (length ?tts) - 1)))) \<and>
       \<bar>sum_list (contrast_Weights (cs ! j))\<bar> \<le> 1 / 2 ^ 51"
    by blast
  from each have c1:
    "contrast_Name (cs ! 1) = ''run_incongruent_vs_others''"
    "contrast_ConditionList (cs ! 1) =
       [''trial_type.congruent'', ''trial_type.incongruent'', ''trial_type.neutral'',
        ''trial_type.null'']"
    "length (contrast_Weights (cs ! 1)) = 4"
    "\<bar>sum_list (contrast_Weights (cs ! 1))\<bar> \<le> 1 / 2 ^ 51"
    and nth: "\<forall>p<4. contrast_Weights (cs ! 1) ! p = (if p = 1 then 1 else ?w)"
    using float64_third by simp_all
  have "contrast_Weights (cs ! 1) = [?w, 1, ?w, ?w]"
  proof (rule nth_equalityI)
    show "length (contrast_Weights (cs ! 1)) = length [?w, 1, ?w, ?w]"
      using c1(3) by simp
    fix p
    assume "p < length (contrast_Weights (cs ! 1))"
    then have "p < 4" using c1(3) by simp
    then have "p = 0 \<or> p = 1 \<or> p = 2 \<or> p = 3" by auto
    with nth show "contrast_Weights (cs ! 1) ! p = [?w, 1, ?w, ?w] ! p"
      by auto
  qed
  moreover from this have "sum_list (contrast_Weights (cs ! 1)) = 1 / 2 ^ 54"
    by simp
  ultimately show ?thesis
    using h1 h2 h3 run c1 by simp
qed

text \<open>
  C2. With \<^verbatim>\<open>one_vs_rest=True\<close>, the nodes of every task are the run node, then a
  \<^verbatim>\<open>Session\<close> node exactly when \<^verbatim>\<open>get_sessions\<close> reports more than one session, then
  a \<^verbatim>\<open>Subject\<close> node exactly when \<^verbatim>\<open>get_subjects\<close> reports more than one subject (the
  two tests are independent), then always a \<^verbatim>\<open>Dataset\<close> node. The \<^verbatim>\<open>Model.X\<close> of that
  last node lists the contrast names of the node just before it.
\<close>

theorem aggregation_nodes:
  assumes "auto_model layout scan_length True = Inr task_models"
    and "i < length task_models"
  shows "map node_Level (tm_Nodes (task_models ! i)) =
           [''Run''] @ (if 1 < length (get_sessions layout) then [''Session''] else []) @
           (if 1 < length (get_subjects layout) then [''Subject''] else []) @ [''Dataset''] \<and>
         (\<exists>cs. node_Contrasts
                 (tm_Nodes (task_models ! i) ! (length (tm_Nodes (task_models ! i)) - 2)) = Some cs \<and>
               node_Level (last (tm_Nodes (task_models ! i))) = ''Dataset'' \<and>
               model_X (node_Model (last (tm_Nodes (task_models ! i)))) = map contrast_Name cs)"
proof -
  let ?nodes = "tm_Nodes (task_models ! i)"
  from auto_model_nodes [OF assms] obtain tts
    where b: "build_nodes layout True tts = Inr ?nodes" by blast
  note lv = build_nodes_True_levels [OF b]
  have len: "2 \<le> length ?nodes"
    by (rule build_nodes_True_length [OF b])
  then have ne: "?nodes \<noteq> []" by auto
  have "0 < length ?nodes - 1" "length ?nodes - 1 < length ?nodes"
    using len by simp_all
  from build_nodes_True_inherit [OF b this] obtain cs
    where "node_Contrasts (?nodes ! (length ?nodes - 1 - 1)) = Some cs"
      and "model_X (node_Model (?nodes ! (length ?nodes - 1))) = map contrast_Name cs"
    by blast
  moreover have "length ?nodes - 1 - 1 = length ?nodes - 2" by simp
  moreover have "?nodes ! (length ?nodes - 1) = last ?nodes"
    using ne by (simp add: last_conv_nth)
  moreover have "node_Level (last ?nodes) = ''Dataset''"
  proof -
    have "node_Level (last ?nodes) = last (map node_Level ?nodes)"
      using ne by (simp add: last_map)
    then show ?thesis by (simp add: lv)
  qed
  ultimately show ?thesis
    using lv by auto
qed

theorem aggregation_nodes_witness:
  "auto_model demo_layout None True = Inr (demo_models True) \<and>
   1 < length (demo_models True) \<and>
   map node_Level (tm_Nodes (demo_models True ! 1)) =
     [''Run'', ''Session'', ''Subject'', ''Dataset''] \<and>
   auto_model small_layout None True = Inr small_models \<and>
   1 < length small_models \<and>
   map node_Level (tm_Nodes (small_models ! 1)) = [''Run'', ''Dataset'']"
proof -
  have h1: "auto_model demo_layout None True = Inr (demo_models True)"
    by (rule demo_auto_model)
  have h2: "1 < length (demo_models True)"
    by (simp add: demo_models_length)
  have k1: "auto_model small_layout None True = Inr small_models"
    by (rule small_auto_model)
  have k2: "1 < length small_models"
    by (simp add: small_models_length)
  show ?thesis
    using h1 h2 k1 k2 aggregation_nodes [OF h1 h2] aggregation_nodes [OF k1 k2]
    by (simp add: demo_layout_def small_layout_def)
qed

text \<open>
  C3. With \<^verbatim>\<open>one_vs_rest=True\<close>, whenever the trial types of every task can be loaded,
  \<^verbatim>\<open>auto_model\<close> returns a model for every task: the division by zero met for a task
  with a single trial type does not reach the caller. The run node of such a task has the
  single contrast named \<^verbatim>\<open>run_<tt>\<close>, without the suffix \<^verbatim>\<open>_vs_others\<close>, whose
  weights are the initial \<open>[1]\<close>.
\<close>

theorem single_trial_type:
  assumes "\<forall>t\<in>set (entities_task_unique layout).
             \<exists>tts. get_trial_types layout scan_length t = Inr tts"
  shows "\<exists>task_models.
           auto_model layout scan_length True = Inr task_models \<and>
           length task_models = length (entities_task_unique layout) \<and>
           (\<forall>i tt. i < length task_models \<longrightarrow>
              get_trial_types layout scan_length (entities_task_unique layout ! i) = Inr [tt] \<longrightarrow>
              (\<exists>run rest.
                 tm_Nodes (task_models ! i) = run # rest \<and>
                 node_Level run = ''Run'' \<and>
                 node_Contrasts run =
                   Some [\<lparr>contrast_Name = ''run_'' @ tt,
                          contrast_ConditionList = [''trial_type.'' @ tt],
                          contrast_Weights = [1],
                          contrast_Test = ''t''\<rparr>]))"
proof -
  from auto_model_total [OF assms] obtain tms
    where tms: "auto_model layout scan_length True = Inr tms" by blast
  have "\<exists>run rest.
          tm_Nodes (tms ! i) = run # rest \<and> node_Level run = ''Run'' \<and>
          node_Contrasts run =
            Some [\<lparr>contrast_Name = ''run_'' @ tt,
                   contrast_ConditionList = [''trial_type.'' @ tt],
                   contrast_Weights = [1],
                   contrast_Test = ''t''\<rparr>]"
    if i: "i < length tms"
      and tt: "get_trial_types layout scan_length (entities_task_unique layout ! i) = Inr [tt]"
    for i tt
  proof -
    from auto_model_nodes [OF tms i] tt
    have "build_nodes layout True [tt] = Inr (tm_Nodes (tms ! i))" by auto
    from build_nodes_True_run [OF this] obtain rest where
      "tm_Nodes (tms ! i) =
         (run_block (factors [tt]))\<lparr>node_Contrasts := Some (run_contrasts [tt])\<rparr> # rest"
      by blast
    then show ?thesis
      by (simp add: run_contrasts_single run_block_def)
  qed
  with tms auto_model_length [OF tms] show ?thesis by blast
qed

theorem single_trial_type_witness:
  "get_trial_types demo_layout None ''rest'' = Inr [''go'', ''stop''] \<and>
   get_trial_types demo_layout None ''nback'' = Inr [''2back''] \<and>
   get_trial_types demo_layout None ''fixation'' = Inr [] \<and>
   (\<exists>task_models run rest.
      auto_model demo_layout None True = Inr task_models \<and>
      length task_models = 3 \<and>
      tm_Nodes (task_models ! 1) = run # rest \<and>
      node_Level run = ''Run'' \<and>
      node_Contrasts run =
        Some [\<lparr>contrast_Name = ''run_2back'',
               contrast_ConditionList = [''trial_type.2back''],
               contrast_Weights = [1],
               contrast_Test = ''t''\<rparr>])"
proof -
  have h: "\<forall>t\<in>set (entities_task_unique demo_layout).
             \<exists>tts. get_trial_types demo_layout None t = Inr tts"
    by (simp add: demo_tasks demo_trial_types)
  from single_trial_type [OF h] obtain tms where
    "auto_model demo_layout None True = Inr tms"
    "length tms = length (entities_task_unique demo_layout)"
    and each: "\<And>i tt. i < length tms \<Longrightarrow>
      get_trial_types demo_layout None (entities_task_unique demo_layout ! i) = Inr [tt] \<Longrightarrow>
      \<exists>run rest. tm_Nodes (tms ! i) = run # rest \<and> node_Level run = ''Run'' \<and>
        node_Contrasts run =
          Some [\<lparr>contrast_Name = ''run_'' @ tt,
                 contrast_ConditionList = [''trial_type.'' @ tt],
                 contrast_Weights = [1],
                 contrast_Test = ''t''\<rparr>]"
    by blast
  moreover from this(2) have "1 < length tms"
    by (simp add: demo_tasks)
  moreover have "get_trial_types demo_layout None (entities_task_unique demo_layout ! 1) =
      Inr [''2back'']"
    by (simp add: demo_tasks demo_trial_types)
  ultimately obtain run rest where
    "tm_Nodes (tms ! 1) = run # rest" "node_Level run = ''Run''"
    "node_Contrasts run =
       Some [\<lparr>contrast_Name = ''run_'' @ ''2back'',
              contrast_ConditionList = [''trial_type.'' @ ''2back''],
              contrast_Weights = [1],
              contrast_Test = ''t''\<rparr>]"
    by blast
  with \<open>auto_model demo_layout None True = Inr tms\<close>
    \<open>length tms = length (entities_task_unique demo_layout)\<close>
  have "\<exists>task_models run rest.
      auto_model demo_layout None True = Inr task_models \<and>
      length task_models = 3 \<and>
      tm_Nodes (task_models ! 1) = run # rest \<and>
      node_Level run = ''Run'' \<and>
      node_Contrasts run =
        Some [\<lparr>contrast_Name = ''run_2back'',
               contrast_ConditionList = [''trial_type.2back''],
               contrast_Weights = [1],
               contrast_Test = ''t''\<rparr>]"
    by (auto simp: demo_tasks)
  then show ?thesis
    by (simp add: demo_trial_types)
qed



text \<open>
  C5. Every contrast of every node of every returned model, at run level and in the
  \<^verbatim>\<open>Session\<close>, \<^verbatim>\<open>Subject\<close> and \<^verbatim>\<open>Dataset\<close> nodes alike, has as many weights as
  conditions.
\<close>

theorem weights_match_conditions:
  assumes "auto_model layout scan_length one_vs_rest = Inr task_models"
    and "m \<in> set task_models"
    and "n \<in> set (tm_Nodes m)"
    and "node_Contrasts n = Some cs"
    and "c \<in> set cs"
  shows "length (contrast_Weights c) = length (contrast_ConditionList c)"
proof -
  from assms(2) obtain i where i: "i < length task_models" and m: "m = task_models ! i"
    by (auto simp: in_set_conv_nth)
  from auto_model_nodes [OF assms(1) i] obtain tts
    where "build_nodes layout one_vs_rest tts = Inr (tm_Nodes m)"
    using m by blast
  from build_nodes_lengths [OF this assms(3-5)] show ?thesis .
qed

theorem weights_match_conditions_witness:
  "auto_model demo_layout None True = Inr (demo_models True) \<and>
   demo_models True ! 0 \<in> set (demo_models True) \<and>
   tm_Nodes (demo_models True ! 0) ! 0 \<in> set (tm_Nodes (demo_models True ! 0)) \<and>
   node_Contrasts (tm_Nodes (demo_models True ! 0) ! 0) =
     Some [\<lparr>contrast_Name = ''run_go_vs_others'',
            contrast_ConditionList = [''trial_type.go'', ''trial_type.stop''],
            contrast_Weights = [1, - 1], contrast_Test = ''t''\<rparr>,
           \<lparr>contrast_Name = ''run_stop_vs_others'',
            contrast_ConditionList = [''trial_type.go'', ''trial_type.stop''],
            contrast_Weights = [- 1, 1], contrast_Test = ''t''\<rparr>] \<and>
   length (contrast_Weights
     \<lparr>contrast_Name = ''run_go_vs_others'',
      contrast_ConditionList = [''trial_type.go'', ''trial_type.stop''],
      contrast_Weights = [1, - 1], contrast_Test = ''t''\<rparr>) =
   length (contrast_ConditionList
     \<lparr>contrast_Name = ''run_go_vs_others'',
      contrast_ConditionList = [''trial_type.go'', ''trial_type.stop''],
      contrast_Weights = [1, - 1], contrast_Test = ''t''\<rparr>)"
proof -
  let ?c0 = "\<lparr>contrast_Name = ''run_go_vs_others'',
      contrast_ConditionList = [''trial_type.go'', ''trial_type.stop''],
      contrast_Weights = [1, - 1], contrast_Test = ''t''\<rparr>"
  let ?c1 = "\<lparr>contrast_Name = ''run_stop_vs_others'',
      contrast_ConditionList = [''trial_type.go'', ''trial_type.stop''],
      contrast_Weights = [- 1, 1], contrast_Test = ''t''\<rparr>"
  have h1: "auto_model demo_layout None True = Inr (demo_models True)"
    by (rule demo_auto_model)
  have h2: "demo_models True ! 0 \<in> set (demo_models True)"
    by (simp add: demo_models_length)
  have h3: "tm_Nodes (demo_models True ! 0) ! 0 \<in> set (tm_Nodes (demo_models True ! 0))"
    by (simp add: demo_rest_length)
  have "map node_Contrasts (tm_Nodes (demo_models True ! 0)) ! 0 = Some [?c0, ?c1]"
    by (simp add: demo_rest_contrasts)
  then have h4: "node_Contrasts (tm_Nodes (demo_models True ! 0) ! 0) = Some [?c0, ?c1]"
    by (simp add: demo_rest_length)
  have h5: "?c0 \<in> set [?c0, ?c1]"
    by simp
  from weights_match_conditions [OF h1 h2 h3 h4 h5] h1 h2 h3 h4
  show ?thesis by blast
qed

text \<open>
  C6. Every node after the run node is a \<^verbatim>\<open>Session\<close> node grouped by
  \<^verbatim>\<open>[session, contrast]\<close>, a \<^verbatim>\<open>Subject\<close> node grouped by \<^verbatim>\<open>[subject, contrast]\<close> or a
  \<^verbatim>\<open>Dataset\<close> node grouped by \<^verbatim>\<open>[contrast]\<close>. Its \<^verbatim>\<open>Model.X\<close> holds the contrast names
  of the node before it, and for each such name \<open>cn\<close>, in order, it has exactly one
  contrast: named by the lower-case level, an underscore and \<open>cn\<close>, with
  \<^verbatim>\<open>ConditionList\<close> \<open>[cn]\<close>, \<^verbatim>\<open>Weights\<close> \<open>[1]\<close> and \<^verbatim>\<open>Test\<close> \<^verbatim>\<open>t\<close>.
\<close>

theorem passthrough_nodes:
  fixes task_models :: "task_model list"
  defines "n \<equiv> \<lambda>i j. tm_Nodes (task_models ! i) ! j"
  assumes "auto_model layout scan_length one_vs_rest = Inr task_models"
    and "i < length task_models"
    and "0 < j"
    and "j < length (tm_Nodes (task_models ! i))"
  shows "(node_Level (n i j), node_GroupBy (n i j)) \<in>
           {(''Session'', [''session'', ''contrast'']),
            (''Subject'', [''subject'', ''contrast'']),
            (''Dataset'', [''contrast''])} \<and>
         lower ''Session'' = ''session'' \<and>
         lower ''Subject'' = ''subject'' \<and>
         lower ''Dataset'' = ''dataset'' \<and>
         (\<exists>cs. node_Contrasts (n i (j - 1)) = Some cs \<and>
               model_X (node_Model (n i j)) = map contrast_Name cs) \<and>
         node_Contrasts (n i j) =
           Some (map (\<lambda>cn. \<lparr>contrast_Name = lower (node_Level (n i j)) @ ''_'' @ cn,
                             contrast_ConditionList = [cn],
                             contrast_Weights = [1],
                             contrast_Test = ''t''\<rparr>)
                   (model_X (node_Model (n i j))))"
proof -
  from auto_model_nodes [OF assms(2,3)] obtain tts
    where b: "build_nodes layout one_vs_rest tts = Inr (tm_Nodes (task_models ! i))"
    by blast
  from build_nodes_passthrough [OF b assms(4,5)] build_nodes_inherit [OF b assms(4,5)]
  show ?thesis
    unfolding n_def by (simp add: lower_levels)
qed

theorem passthrough_nodes_witness:
  "auto_model demo_layout None True = Inr (demo_models True) \<and>
   0 < length (demo_models True) \<and>
   (0::nat) < 2 \<and>
   2 < length (tm_Nodes (demo_models True ! 0)) \<and>
   node_Level (tm_Nodes (demo_models True ! 0) ! 2) = ''Subject'' \<and>
   node_GroupBy (tm_Nodes (demo_models True ! 0) ! 2) = [''subject'', ''contrast''] \<and>
   model_X (node_Model (tm_Nodes (demo_models True ! 0) ! 2)) =
     [''session_run_go_vs_others'', ''session_run_stop_vs_others''] \<and>
   node_Contrasts (tm_Nodes (demo_models True ! 0) ! 2) =
     Some [\<lparr>contrast_Name = ''subject_session_run_go_vs_others'',
            contrast_ConditionList = [''session_run_go_vs_others''],
            contrast_Weights = [1], contrast_Test = ''t''\<rparr>,
           \<lparr>contrast_Name = ''subject_session_run_stop_vs_others'',
            contrast_ConditionList = [''session_run_stop_vs_others''],
            contrast_Weights = [1], contrast_Test = ''t''\<rparr>]"
proof -
  let ?n = "tm_Nodes (demo_models True ! 0) ! 2"
  have h1: "auto_model demo_layout None True = Inr (demo_models True)"
    by (rule demo_auto_model)
  have h2: "0 < length (demo_models True)"
    by (simp add: demo_models_length)
  have h3: "(0::nat) < 2"
    by simp
  have h4: "2 < length (tm_Nodes (demo_models True ! 0))"
    by (simp add: demo_rest_length)
  have "map (\<lambda>n. (node_Level n, node_GroupBy n, model_Type (node_Model n), model_X (node_Model n)))
          (tm_Nodes (demo_models True ! 0)) ! 2 =
        (''Subject'', [''subject'', ''contrast''], ''meta'',
         [''session_run_go_vs_others'', ''session_run_stop_vs_others''])"
    by (simp add: demo_rest_levels)
  then have lv: "node_Level ?n = ''Subject''"
    and x: "model_X (node_Model ?n) = [''session_run_go_vs_others'', ''session_run_stop_vs_others'']"
    using h4 by simp_all
  from passthrough_nodes [OF h1 h2 h3 h4] lv x h1 h2 h4
  show ?thesis
    by simp
qed

text \<open>
  C7. In every returned model, the \<^verbatim>\<open>Model.Type\<close> of a \<^verbatim>\<open>Session\<close> node and of a
  \<^verbatim>\<open>Subject\<close> node is \<^verbatim>\<open>meta\<close>, and that of the \<^verbatim>\<open>Dataset\<close> node is \<^verbatim>\<open>glm\<close>.
\<close>

theorem passthrough_model_types:
  assumes "auto_model layout scan_length one_vs_rest = Inr task_models"
    and "i < length task_models"
    and "n \<in> set (tm_Nodes (task_models ! i))"
  shows "(node_Level n = ''Session'' \<longrightarrow> model_Type (node_Model n) = ''meta'') \<and>
         (node_Level n = ''Subject'' \<longrightarrow> model_Type (node_Model n) = ''meta'') \<and>
         (node_Level n = ''Dataset'' \<longrightarrow> model_Type (node_Model n) = ''glm'')"
proof -
  from auto_model_nodes [OF assms(1,2)] obtain tts
    where "build_nodes layout one_vs_rest tts = Inr (tm_Nodes (task_models ! i))"
    by blast
  from build_nodes_model_types [OF this assms(3)] show ?thesis .
qed

theorem passthrough_model_types_witness:
  "auto_model demo_layout None True = Inr (demo_models True) \<and>
   0 < length (demo_models True) \<and>
   tm_Nodes (demo_models True ! 0) ! 1 \<in> set (tm_Nodes (demo_models True ! 0)) \<and>
   tm_Nodes (demo_models True ! 0) ! 3 \<in> set (tm_Nodes (demo_models True ! 0)) \<and>
   node_Level (tm_Nodes (demo_models True ! 0) ! 1) = ''Session'' \<and>
   model_Type (node_Model (tm_Nodes (demo_models True ! 0) ! 1)) = ''meta'' \<and>
   node_Level (tm_Nodes (demo_models True ! 0) ! 3) = ''Dataset'' \<and>
   model_Type (node_Model (tm_Nodes (demo_models True ! 0) ! 3)) = ''glm''"
proof -
  let ?nodes = "tm_Nodes (demo_models True ! 0)"
  have h1: "auto_model demo_layout None True = Inr (demo_models True)"
    by (rule demo_auto_model)
  have h2: "0 < length (demo_models True)"
    by (simp add: demo_models_length)
  have h3: "?nodes ! 1 \<in> set ?nodes" and h3': "?nodes ! 3 \<in> set ?nodes"
    by (simp_all add: demo_rest_length)
  have "map node_Level ?nodes = [''Run'', ''Session'', ''Subject'', ''Dataset'']"
    using arg_cong [OF demo_rest_levels, of "map fst"] by (simp add: comp_def)
  then have "map node_Level ?nodes ! 1 = ''Session''" "map node_Level ?nodes ! 3 = ''Dataset''"
    by simp_all
  then have lv: "node_Level (?nodes ! 1) = ''Session''" "node_Level (?nodes ! 3) = ''Dataset''"
    by (simp_all add: demo_rest_length)
  from passthrough_model_types [OF h1 h2 h3] passthrough_model_types [OF h1 h2 h3'] lv h1 h2 h3 h3'
  show ?thesis
    by simp
qed

text \<open>
  C8. With \<^verbatim>\<open>one_vs_rest=False\<close>, the nodes of every returned model are the run node
  alone, and that node has no \<^verbatim>\<open>Contrasts\<close> key.
\<close>

theorem run_node_only:
  assumes "auto_model layout scan_length False = Inr task_models"
    and "m \<in> set task_models"
  shows "\<exists>run. tm_Nodes m = [run] \<and> node_Level run = ''Run'' \<and> node_Contrasts run = None"
proof -
  from assms(2) obtain i where i: "i < length task_models" and m: "m = task_models ! i"
    by (auto simp: in_set_conv_nth)
  from auto_model_nodes [OF assms(1) i] obtain tts
    where "build_nodes layout False tts = Inr (tm_Nodes m)"
    using m by blast
  then have "tm_Nodes m = [run_block (factors tts)]"
    by (simp add: build_nodes_def Let_def)
  then show ?thesis
    by (simp add: run_block_def)
qed

theorem run_node_only_witness:
  "auto_model demo_layout None False = Inr (demo_models False) \<and>
   demo_models False ! 0 \<in> set (demo_models False) \<and>
   (\<exists>run. tm_Nodes (demo_models False ! 0) = [run] \<and>
          node_Level run = ''Run'' \<and> node_Contrasts run = None)"
proof -
  have h1: "auto_model demo_layout None False = Inr (demo_models False)"
    by (rule demo_auto_model)
  have h2: "demo_models False ! 0 \<in> set (demo_models False)"
    by (simp add: demo_models_length)
  from run_node_only [OF h1 h2] h1 h2 show ?thesis
    by blast
qed

text \<open>
  C9, as amended. A run node whose \<^verbatim>\<open>trial_type\<close> variable holds no values contributes
  no labels: the trial types are those of the other run nodes, and no error is raised for
  it. A run node whose \<^verbatim>\<open>variables\<close> have no \<^verbatim>\<open>trial_type\<close> entry makes the lookup
  \<^verbatim>\<open>n.variables['trial_type']\<close> of line 83 raise \<^verbatim>\<open>KeyError\<close>, although
  \<^verbatim>\<open>load_variables\<close> returned normally; nothing catches it, so \<^verbatim>\<open>auto_model\<close> returns
  no models when the task is one of the layout's.
\<close>

theorem trial_type_lookup:
  assumes "load_variables layout task_name scan_length = Inr (before @ n # after)"
  shows "(variables n ''trial_type'' = Some [] \<longrightarrow>
            get_trial_types layout scan_length task_name =
              bind_err (collect_evs (before @ after) []) (\<lambda>evs. Inr (np_unique evs))) \<and>
         (variables n ''trial_type'' = None \<longrightarrow>
            get_trial_types layout scan_length task_name = Inl (KeyError ''trial_type'') \<and>
            (task_name \<in> set (entities_task_unique layout) \<longrightarrow>
               isl (auto_model layout scan_length one_vs_rest)))"
proof (intro conjI impI)
  assume "variables n ''trial_type'' = Some []"
  then show "get_trial_types layout scan_length task_name =
      bind_err (collect_evs (before @ after) []) (\<lambda>evs. Inr (np_unique evs))"
    using assms by (simp add: get_trial_types_def collect_evs_skip_empty)
next
  assume "variables n ''trial_type'' = None"
  then have "collect_evs (before @ n # after) [] = Inl (KeyError ''trial_type'')"
    by (intro collect_evs_Inl) auto
  with assms show e: "get_trial_types layout scan_length task_name = Inl (KeyError ''trial_type'')"
    by (simp add: get_trial_types_def)
  assume "task_name \<in> set (entities_task_unique layout)"
  with e show "isl (auto_model layout scan_length one_vs_rest)"
    by (rule auto_model_task_error)
qed

theorem trial_type_lookup_witness:
  "load_variables missing_layout ''rest'' None =
     Inr ([\<lparr>variables = [''trial_type'' \<mapsto> [''go'', ''stop'']]\<rparr>] @
          \<lparr>variables = [''response'' \<mapsto> [''left'', ''right'']]\<rparr> # []) \<and>
   variables \<lparr>variables = [''response'' \<mapsto> [''left'', ''right'']]\<rparr> ''trial_type'' = None \<and>
   ''rest'' \<in> set (entities_task_unique missing_layout) \<and>
   get_trial_types missing_layout None ''rest'' = Inl (KeyError ''trial_type'') \<and>
   isl (auto_model missing_layout None True) \<and>
   load_variables demo_layout ''fixation'' None =
     Inr ([] @ \<lparr>variables = [''trial_type'' \<mapsto> []]\<rparr> # []) \<and>
   variables \<lparr>variables = [''trial_type'' \<mapsto> []]\<rparr> ''trial_type'' = Some [] \<and>
   get_trial_types demo_layout None ''fixation'' = Inr []"
proof -
  have h: "load_variables missing_layout ''rest'' None =
     Inr ([\<lparr>variables = [''trial_type'' \<mapsto> [''go'', ''stop'']]\<rparr>] @
          \<lparr>variables = [''response'' \<mapsto> [''left'', ''right'']]\<rparr> # [])"
    by (simp add: missing_layout_def)
  have n: "variables \<lparr>variables = [''response'' \<mapsto> [''left'', ''right'']]\<rparr> ''trial_type'' = None"
    by simp
  have t: "''rest'' \<in> set (entities_task_unique missing_layout)"
    by (simp add: missing_layout_def)
  have k: "load_variables demo_layout ''fixation'' None =
     Inr ([] @ \<lparr>variables = [''trial_type'' \<mapsto> []]\<rparr> # [])"
    by (simp add: demo_layout_def)
  have e: "variables \<lparr>variables = [''trial_type'' \<mapsto> []]\<rparr> ''trial_type'' = Some []"
    by simp
  from trial_type_lookup [OF h, of True] n t
  have "get_trial_types missing_layout None ''rest'' = Inl (KeyError ''trial_type'')"
    "isl (auto_model missing_layout None True)"
    by blast+
  moreover from trial_type_lookup [OF k, of True] e
  have "get_trial_types demo_layout None ''fixation'' = Inr []"
    by (simp add: np_unique_def)
  ultimately show ?thesis
    using h n t k e by blast
qed

text \<open>
  C9, as stated, fails: \<^verbatim>\<open>load_variables\<close> returns two run nodes for task
  \<^verbatim>\<open>rest\<close>, the second without a \<^verbatim>\<open>trial_type\<close> variable, and \<^verbatim>\<open>auto_model\<close>
  raises \<^verbatim>\<open>KeyError\<close> instead of taking no labels from that run.
\<close>

theorem missing_trial_type_counterexample:
  "load_variables missing_layout ''rest'' None =
     Inr [\<lparr>variables = [''trial_type'' \<mapsto> [''go'', ''stop'']]\<rparr>,
          \<lparr>variables = [''response'' \<mapsto> [''left'', ''right'']]\<rparr>] \<and>
   variables \<lparr>variables = [''response'' \<mapsto> [''left'', ''right'']]\<rparr> ''trial_type'' = None \<and>
   auto_model missing_layout None False = Inl (KeyError ''trial_type'') \<and>
   auto_model missing_layout None True = Inl (KeyError ''trial_type'')"
proof -
  have "auto_model missing_layout None False = Inl (KeyError ''trial_type'')"
    "auto_model missing_layout None True = Inl (KeyError ''trial_type'')"
    by code_simp+
  then show ?thesis
    by (simp add: missing_layout_def)
qed

text \<open>
  C10. With \<^verbatim>\<open>one_vs_rest=True\<close>, a task with no trial types still has a run node whose
  \<^verbatim>\<open>Contrasts\<close> key holds the empty list, and its last node is still the \<^verbatim>\<open>Dataset\<close>
  node, with an empty \<^verbatim>\<open>Model.X\<close> and an empty list of contrasts.
\<close>

theorem no_trial_types:
  assumes "auto_model layout scan_length True = Inr task_models"
    and "i < length task_models"
    and "get_trial_types layout scan_length (entities_task_unique layout ! i) = Inr []"
  shows "\<exists>run middle dataset.
           tm_Nodes (task_models ! i) = run # middle @ [dataset] \<and>
           node_Level run = ''Run'' \<and>
           model_X (node_Model run) = [] \<and>
           node_Contrasts run = Some [] \<and>
           node_Level dataset = ''Dataset'' \<and>
           model_X (node_Model dataset) = [] \<and>
           node_Contrasts dataset = Some []"
proof -
  from auto_model_nodes [OF assms(1,2)] assms(3)
  have "build_nodes layout True [] = Inr (tm_Nodes (task_models ! i))"
    by auto
  from build_nodes_empty [OF this] show ?thesis .
qed

theorem no_trial_types_witness:
  "auto_model demo_layout None True = Inr (demo_models True) \<and>
   2 < length (demo_models True) \<and>
   get_trial_types demo_layout None (entities_task_unique demo_layout ! 2) = Inr [] \<and>
   (\<exists>run middle dataset.
      tm_Nodes (demo_models True ! 2) = run # middle @ [dataset] \<and>
      node_Level run = ''Run'' \<and>
      model_X (node_Model run) = [] \<and>
      node_Contrasts run = Some [] \<and>
      node_Level dataset = ''Dataset'' \<and>
      model_X (node_Model dataset) = [] \<and>
      node_Contrasts dataset = Some [])"
proof -
  have h1: "auto_model demo_layout None True = Inr (demo_models True)"
    by (rule demo_auto_model)
  have h2: "2 < length (demo_models True)"
    by (simp add: demo_models_length)
  have h3: "get_trial_types demo_layout None (entities_task_unique demo_layout ! 2) = Inr []"
    by (simp add: demo_tasks demo_trial_types)
  from no_trial_types [OF h1 h2 h3] h1 h2 h3 show ?thesis
    by blast
qed

end
